theory Spec2Isabelle
  imports Complex_Main
begin

section \<open>Data model\<close>

text \<open>
  The turn orchestrator \<^verbatim>\<open>threadInfer\<close> and the knowledge tool adapter
  \<^verbatim>\<open>knowledgeBaseTool\<close> of \<^verbatim>\<open>src/lib/thread/index.ts\<close>, with the record
  types of \<^verbatim>\<open>src/lib/knowledge/types.ts\<close>.

  The code throws plain \<^verbatim>\<open>Error\<close> objects that differ only in their message, so the
  error type carries the message. \<^verbatim>\<open>SyntaxError\<close> is what \<^verbatim>\<open>JSON.parse\<close> throws and
  \<^verbatim>\<open>ZodError\<close> what a zod schema's \<^verbatim>\<open>parse\<close> throws.
\<close>

datatype error = Error string | SyntaxError | ZodError

text \<open>
  A message as \<^verbatim>\<open>threadInfer\<close> handles it: the system message it builds has exactly
  the fields \<^verbatim>\<open>role\<close> and \<^verbatim>\<open>content\<close>; every other message is passed along
  uninspected.
\<close>

record message =
  role :: string
  content :: string

text \<open>\<^verbatim>\<open>KnowledgeBase\<close> and \<^verbatim>\<open>SearchResult\<close> of \<^verbatim>\<open>knowledge/types.ts\<close>.\<close>

record KnowledgeBase =
  name :: string
  description :: "string option"
  embedding_model :: string
  database_provider :: string

text \<open>
  JavaScript values, as far as tool payloads and search metadata need them. An object is
  the list of its own properties; reading a property that is not there gives
  \<^verbatim>\<open>undefined\<close>. Numbers are the finite ones.
\<close>

datatype js_value =
    JUndefined
  | JNull
  | JBool bool
  | JNum rat
  | JStr string
  | JArr "js_value list"
  | JObj "(string \<times> js_value) list"

definition property :: "(string \<times> js_value) list \<Rightarrow> string \<Rightarrow> js_value" where
  "property obj key = (case map_of obj key of None \<Rightarrow> JUndefined | Some v \<Rightarrow> v)"

record SearchResult =
  sr_id :: string
  sr_content :: string
  sr_model :: string
  sr_metadata :: "(string \<times> js_value) list option"
  similarity :: rat

text \<open>
  The agent and thread records are declared in \<^verbatim>\<open>db/agent\<close> and \<^verbatim>\<open>db/thread\<close>;
  these are the fields \<^verbatim>\<open>threadInfer\<close> reads. Identifiers are strings. An optional
  field is \<open>None\<close> when it is \<^verbatim>\<open>undefined\<close> or \<^verbatim>\<open>null\<close>.
\<close>

record agent =
  agent_id :: string
  agent_name :: string
  prompt :: string
  primaryModel :: string
  knowledgeBases :: "KnowledgeBase list option"

record thread_details =
  default_agent_id :: "string option"

text \<open>
  A tool object is either built by \<^verbatim>\<open>createToolFromDb\<close> from a database record (of
  a type \<open>'t\<close> this code never looks into) or by \<^verbatim>\<open>knowledgeBaseTool\<close> from a
  knowledge base.
\<close>

datatype 't tool = createToolFromDb 't | knowledgeBaseTool KnowledgeBase

text \<open>The argument of \<^verbatim>\<open>universalInfer\<close>; \<open>tools = None\<close> is \<^verbatim>\<open>undefined\<close>.\<close>

record 't infer_request =
  model :: string
  messages :: "message list"
  tools :: "'t tool list option"

text \<open>
  The two calls of \<^verbatim>\<open>threadInfer\<close> that have an effect, recorded in the order they are
  made.
\<close>

datatype 't call =
    InferCall "'t infer_request"
  | AddMessagesCall string "message list"

record ('db, 't) state =
  db :: 'db
  calls :: "'t call list"

text \<open>
  The collaborators \<^verbatim>\<open>threadInfer\<close> imports, as parameters. The lookups read the store
  \<open>'db\<close>; each may fail (\<open>Inl\<close>), and a lookup that finds nothing returns \<open>None\<close>.
  \<^verbatim>\<open>universalInfer\<close> returns the store it leaves behind, the messages it handed to
  \<^verbatim>\<open>onMessage\<close> in order before it settled, and its result or failure.
  \<^verbatim>\<open>addMessagesToThread\<close> returns the updated store or fails.
\<close>

record ('db, 't) collaborators =
  getThreadDetailsById :: "'db \<Rightarrow> string \<Rightarrow> error + thread_details option"
  getAgentByName :: "'db \<Rightarrow> string \<Rightarrow> error + agent option"
  getAgentById :: "'db \<Rightarrow> string \<Rightarrow> error + agent option"
  getMessagesByThreadId :: "'db \<Rightarrow> string \<Rightarrow> error + message list"
  getAgentTools :: "'db \<Rightarrow> string \<Rightarrow> error + 't list"
  universalInfer :: "'db \<Rightarrow> 't infer_request \<Rightarrow> 'db \<times> message list \<times> (error + message)"
  addMessagesToThread :: "'db \<Rightarrow> string \<Rightarrow> message list \<Rightarrow> error + 'db"

section \<open>The turn orchestrator\<close>

text \<open>
  \<^verbatim>\<open>Array.prototype.slice(start)\<close> with one argument: a negative start counts from the
  end and is clamped at the front, a start beyond the end gives the empty array.
\<close>

definition slice :: "int \<Rightarrow> 'a list \<Rightarrow> 'a list" where
  "slice start xs =
     (let len = int (length xs);
          begin_at = (if start < 0 then max (len + start) 0 else min start len)
      in drop (nat begin_at) xs)"

text \<open>
  The condition of \<^verbatim>\<open>if (agentName)\<close> and \<^verbatim>\<open>else if (threadDetails.default_agent_id)\<close>:
  an absent value and the empty string are both falsy.
\<close>

fun truthy :: "string option \<Rightarrow> string option" where
  "truthy None = None"
| "truthy (Some s) = (if s = [] then None else Some s)"

text \<open>Lines 38 to 53: the agent that governs the turn.\<close>

definition resolveAgent ::
  "('db, 't) collaborators \<Rightarrow> 'db \<Rightarrow> string option \<Rightarrow> thread_details \<Rightarrow> error + agent" where
  "resolveAgent c d agentName threadDetails =
     (case truthy agentName of
        Some n \<Rightarrow>
          (case getAgentByName c d n of
             Inl e \<Rightarrow> Inl e
           | Inr None \<Rightarrow> Inl (Error (''Agent '' @ [CHR 0x22] @ n @ [CHR 0x22] @ '' not found''))
           | Inr (Some a) \<Rightarrow> Inr a)
      | None \<Rightarrow>
          (case truthy (default_agent_id threadDetails) of
             Some i \<Rightarrow>
               (case getAgentById c d i of
                  Inl e \<Rightarrow> Inl e
                | Inr None \<Rightarrow> Inl (Error ''Default agent not found'')
                | Inr (Some a) \<Rightarrow> Inr a)
           | None \<Rightarrow>
               Inl (Error ''No agent specified and no default agent set for the thread'')))"

text \<open>Lines 56 to 65: the context window.\<close>

definition systemMessage :: "agent \<Rightarrow> message" where
  "systemMessage a = \<lparr>role = ''system'', content = prompt a\<rparr>"

definition contextMessages :: "agent \<Rightarrow> message list \<Rightarrow> message \<Rightarrow> message list" where
  "contextMessages a previousMessages newMessage =
     slice (- 10) ([systemMessage a] @ slice (- 9) previousMessages @ [newMessage])"

text \<open>Lines 72 to 87: the tool set, and what is passed as \<^verbatim>\<open>tools\<close>.\<close>

definition toolSet :: "agent \<Rightarrow> 't list \<Rightarrow> 't tool list" where
  "toolSet a dbtools =
     (let kbs = (case knowledgeBases a of None \<Rightarrow> [] | Some bases \<Rightarrow> bases);
          kbtools = map knowledgeBaseTool kbs;
          registerd_tools = map createToolFromDb dbtools
      in registerd_tools @ kbtools)"

definition toolsArgument :: "'t tool list \<Rightarrow> 't tool list option" where
  "toolsArgument ts = (if length ts > 0 then Some ts else None)"

text \<open>
  Lines 56 to 97, once the agent is known. The callback \<^verbatim>\<open>onMessage\<close> pushes onto the
  local array \<^verbatim>\<open>newMessages\<close>, which starts as \<^verbatim>\<open>[newMessage]\<close>.
\<close>

definition inferAndSave ::
  "('db, 't) collaborators \<Rightarrow> string \<Rightarrow> message \<Rightarrow> agent \<Rightarrow> ('db, 't) state
     \<Rightarrow> (error + message) \<times> ('db, 't) state" where
  "inferAndSave c threadId newMessage a s =
     (case getMessagesByThreadId c (db s) threadId of
        Inl e \<Rightarrow> (Inl e, s)
      | Inr previousMessages \<Rightarrow>
          (case getAgentTools c (db s) (agent_id a) of
             Inl e \<Rightarrow> (Inl e, s)
           | Inr dbtools \<Rightarrow>
               (let request = \<lparr>model = primaryModel a,
                               messages = contextMessages a previousMessages newMessage,
                               tools = toolsArgument (toolSet a dbtools)\<rparr>;
                    (d1, emitted, result) = universalInfer c (db s) request;
                    s1 = \<lparr>db = d1, calls = calls s @ [InferCall request]\<rparr>;
                    newMessages = [newMessage] @ emitted
                in case result of
                     Inl e \<Rightarrow> (Inl e, s1)
                   | Inr out \<Rightarrow>
                       (let s2 = s1\<lparr>calls := calls s1 @ [AddMessagesCall threadId newMessages]\<rparr>
                        in case addMessagesToThread c d1 threadId newMessages of
                             Inl e \<Rightarrow> (Inl e, s2)
                           | Inr d2 \<Rightarrow> (Inr out, s2\<lparr>db := d2\<rparr>)))))"

text \<open>Lines 20 to 103. The \<^verbatim>\<open>catch\<close> block logs and rethrows.\<close>

definition threadInfer ::
  "('db, 't) collaborators \<Rightarrow> string \<Rightarrow> string option \<Rightarrow> message \<Rightarrow> ('db, 't) state
     \<Rightarrow> (error + message) \<times> ('db, 't) state" where
  "threadInfer c threadId agentName newMessage s =
     (case getThreadDetailsById c (db s) threadId of
        Inl e \<Rightarrow> (Inl e, s)
      | Inr None \<Rightarrow> (Inl (Error ''Thread not found''), s)
      | Inr (Some threadDetails) \<Rightarrow>
          (case resolveAgent c (db s) agentName threadDetails of
             Inl e \<Rightarrow> (Inl e, s)
           | Inr a \<Rightarrow> inferAndSave c threadId newMessage a s))"

section \<open>The knowledge tool adapter\<close>

text \<open>
  What zod's \<^verbatim>\<open>z.string()\<close> and \<^verbatim>\<open>z.number().default(2)\<close> accept: a string; a
  number, or \<^verbatim>\<open>undefined\<close>, for which the default stands in.
\<close>

fun z_string :: "js_value \<Rightarrow> string option" where
  "z_string (JStr s) = Some s"
| "z_string _ = None"

fun z_number_default_2 :: "js_value \<Rightarrow> rat option" where
  "z_number_default_2 JUndefined = Some 2"
| "z_number_default_2 (JNum n) = Some n"
| "z_number_default_2 _ = None"

record params =
  query :: string
  k :: rat

text \<open>
  Lines 105 to 108, \<^verbatim>\<open>paramsSchema.parse\<close>: a \<^verbatim>\<open>z.object\<close> accepts objects only,
  checks the keys of its shape and drops the others.
\<close>

fun paramsSchema :: "js_value \<Rightarrow> error + params" where
  "paramsSchema (JObj obj) =
     (case (z_string (property obj ''query''), z_number_default_2 (property obj ''k'')) of
        (Some q, Some n) \<Rightarrow> Inr \<lparr>query = q, k = n\<rparr>
      | _ \<Rightarrow> Inl ZodError)"
| "paramsSchema _ = Inl ZodError"

text \<open>
  The library functions and the search collaborator the tool uses, as parameters:
  \<^verbatim>\<open>JSON.parse\<close> (\<open>None\<close> when it throws), \<^verbatim>\<open>JSON.stringify\<close> and
  \<^verbatim>\<open>searchKnowledgeBase\<close>.
\<close>

record kb_collaborators =
  JSON_parse :: "string \<Rightarrow> js_value option"
  JSON_stringify :: "js_value \<Rightarrow> string"
  searchKnowledgeBase :: "string \<Rightarrow> string \<Rightarrow> rat \<Rightarrow> error + SearchResult list"

text \<open>Line 112: the tool's name.\<close>

definition tool_name :: "KnowledgeBase \<Rightarrow> string" where
  "tool_name kb = ''search-knowledge-base-'' @ name kb"

text \<open>Lines 132 to 138: the tool's \<^verbatim>\<open>parse\<close>.\<close>

definition tool_parse :: "kb_collaborators \<Rightarrow> js_value \<Rightarrow> error + params" where
  "tool_parse e payload =
     (case (case payload of JStr s \<Rightarrow> JSON_parse e s | v \<Rightarrow> Some v) of
        None \<Rightarrow> Inl SyntaxError
      | Some parsed \<Rightarrow> paramsSchema parsed)"

text \<open>Lines 122 to 125: the projection of the search results.\<close>

definition filtered :: "SearchResult list \<Rightarrow> js_value list" where
  "filtered results =
     map (\<lambda>result.
            JObj [(''content'', JStr (sr_content result)),
                  (''metadata'', case sr_metadata result of None \<Rightarrow> JUndefined | Some m \<Rightarrow> JObj m)])
         results"

text \<open>
  Lines 114 to 131: the tool's \<^verbatim>\<open>function\<close>. The calls of the search collaborator are
  recorded with their arguments.
\<close>

type_synonym search_log = "(string \<times> string \<times> rat) list"

definition tool_function ::
  "kb_collaborators \<Rightarrow> KnowledgeBase \<Rightarrow> params \<Rightarrow> search_log \<Rightarrow> (error + string) \<times> search_log" where
  "tool_function e kb p searches =
     (let searches1 = searches @ [(name kb, query p, k p)]
      in case searchKnowledgeBase e (name kb) (query p) (k p) of
           Inl err \<Rightarrow> (Inl err, searches1)
         | Inr results \<Rightarrow> (Inr (JSON_stringify e (JArr (filtered results))), searches1))"

text \<open>
  Modelled from the spec: the \<^verbatim>\<open>Tool\<close> class of \<^verbatim>\<open>inference/tool\<close>, which runs a
  tool, is not among the sources. Section 4.3 of the specification gives the order:
  the raw payload is parsed and validated, then the function is called with the
  parsed parameters, and a failure of either is rethrown.
\<close>

definition tool_invoke ::
  "kb_collaborators \<Rightarrow> KnowledgeBase \<Rightarrow> js_value \<Rightarrow> search_log \<Rightarrow> (error + string) \<times> search_log" where
  "tool_invoke e kb payload searches =
     (case tool_parse e payload of
        Inl err \<Rightarrow> (Inl err, searches)
      | Inr p \<Rightarrow> tool_function e kb p searches)"

text \<open>The own keys of an object.\<close>

fun keys :: "js_value \<Rightarrow> string list" where
  "keys (JObj obj) = map fst obj"
| "keys _ = []"

section \<open>A store to run the orchestrator on\<close>

text \<open>
  Modelled from the spec: the database functions of \<^verbatim>\<open>db/agent\<close> and \<^verbatim>\<open>db/thread\<close>
  are not among the sources. Section 6 of the specification gives their contracts:
  lookups by identifier or name that return the record or nothing, the ordered
  messages of a thread, and an append to a thread's log. The inference engine is a
  function from the request to the messages it emits and its result.
\<close>

record 't store =
  threads :: "(string \<times> thread_details) list"
  agents :: "agent list"
  agent_tools :: "(string \<times> 't list) list"
  thread_messages :: "(string \<times> message list) list"

definition store_collaborators ::
  "('t infer_request \<Rightarrow> message list \<times> (error + message)) \<Rightarrow> ('t store, 't) collaborators" where
  "store_collaborators engine =
     \<lparr>getThreadDetailsById = (\<lambda>d i. Inr (map_of (threads d) i)),
      getAgentByName = (\<lambda>d n. Inr (find (\<lambda>a. agent_name a = n) (agents d))),
      getAgentById = (\<lambda>d i. Inr (find (\<lambda>a. agent_id a = i) (agents d))),
      getMessagesByThreadId =
        (\<lambda>d i. Inr (case map_of (thread_messages d) i of None \<Rightarrow> [] | Some ms \<Rightarrow> ms)),
      getAgentTools = (\<lambda>d i. Inr (case map_of (agent_tools d) i of None \<Rightarrow> [] | Some ts \<Rightarrow> ts)),
      universalInfer = (\<lambda>d r. case engine r of (ms, res) \<Rightarrow> (d, ms, res)),
      addMessagesToThread =
        (\<lambda>d i ms. Inr (d\<lparr>thread_messages :=
           map (\<lambda>(t, old). if t = i then (t, old @ ms) else (t, old)) (thread_messages d)\<rparr>))\<rparr>"

text \<open>
  Two agents and five threads: \<open>T1\<close> is empty, \<open>T2\<close> holds two messages, \<open>T9\<close>
  nine, \<open>T11\<close> eleven, and \<open>T0\<close> has no default agent. Agent \<open>A1\<close> has neither tools nor knowledge
  bases; agent \<open>A2\<close> has one declared tool and the knowledge base \<open>docs\<close>.
\<close>

definition msg :: "string \<Rightarrow> string \<Rightarrow> message" where
  "msg r t = \<lparr>role = r, content = t\<rparr>"

definition docs :: KnowledgeBase where
  "docs = \<lparr>name = ''docs'', description = None, embedding_model = ''e1'',
           database_provider = ''p1''\<rparr>"

definition agentA1 :: agent where
  "agentA1 = \<lparr>agent_id = ''A1'', agent_name = ''helper'', prompt = ''You are helpful'',
              primaryModel = ''m1'', knowledgeBases = None\<rparr>"

definition agentA2 :: agent where
  "agentA2 = \<lparr>agent_id = ''A2'', agent_name = ''librarian'', prompt = ''You cite sources'',
              primaryModel = ''m2'', knowledgeBases = Some [docs]\<rparr>"

definition two :: "message list" where
  "two = [msg ''user'' ''p1'', msg ''assistant'' ''r1'']"

definition nine :: "message list" where
  "nine = [msg ''user'' ''q1'', msg ''assistant'' ''a1'', msg ''user'' ''q2'',
           msg ''assistant'' ''a2'', msg ''user'' ''q3'', msg ''assistant'' ''a3'',
           msg ''user'' ''q4'', msg ''assistant'' ''a4'', msg ''user'' ''q5'']"

definition demo_store :: "string store" where
  "demo_store =
     \<lparr>threads = [(''T1'', \<lparr>default_agent_id = Some ''A1''\<rparr>),
                 (''T2'', \<lparr>default_agent_id = Some ''A2''\<rparr>),
                 (''T9'', \<lparr>default_agent_id = Some ''A1''\<rparr>),
                 (''T11'', \<lparr>default_agent_id = Some ''A2''\<rparr>),
                 (''T0'', \<lparr>default_agent_id = None\<rparr>)],
      agents = [agentA1, agentA2],
      agent_tools = [(''A2'', [''calculator''])],
      thread_messages =
        [(''T1'', []), (''T2'', two), (''T9'', nine), (''T11'', two @ nine), (''T0'', [])]\<rparr>"

definition reply :: message where
  "reply = msg ''assistant'' ''hello''"

definition demo_engine :: "string infer_request \<Rightarrow> message list \<times> (error + message)" where
  "demo_engine r = ([reply], Inr reply)"

definition demo :: "(string store, string) collaborators" where
  "demo = store_collaborators demo_engine"

definition start :: "(string store, string) state" where
  "start = \<lparr>db = demo_store, calls = []\<rparr>"

definition hi :: message where
  "hi = msg ''user'' ''hi''"

text \<open>
  A knowledge search that returns two results, a \<^verbatim>\<open>JSON.parse\<close> that reads the two
  texts \<^verbatim>\<open>{"query":"cats"}\<close> and \<^verbatim>\<open>null\<close> and rejects every other, and a
  \<^verbatim>\<open>JSON.stringify\<close> that only tells arrays by their length.
\<close>

definition hit1 :: SearchResult where
  "hit1 = \<lparr>sr_id = ''d1'', sr_content = ''cats purr'', sr_model = ''e1'',
           sr_metadata = Some [(''page'', JNum 3)], similarity = 9 / 10\<rparr>"

definition hit2 :: SearchResult where
  "hit2 = \<lparr>sr_id = ''d2'', sr_content = ''cats nap'', sr_model = ''e1'',
           sr_metadata = None, similarity = 1 / 2\<rparr>"

definition cats_text :: string where
  "cats_text =
     ''{'' @ [CHR 0x22] @ ''query'' @ [CHR 0x22] @ '':'' @ [CHR 0x22] @ ''cats'' @ [CHR 0x22] @ ''}''"

definition demo_kb :: kb_collaborators where
  "demo_kb =
     \<lparr>JSON_parse = (\<lambda>s. if s = cats_text then Some (JObj [(''query'', JStr ''cats'')])
                          else if s = ''null'' then Some JNull else None),
      JSON_stringify = (\<lambda>v. case v of JArr vs \<Rightarrow> replicate (length vs) CHR ''*'' | _ \<Rightarrow> []),
      searchKnowledgeBase = (\<lambda>kb q n. Inr [hit1, hit2])\<rparr>"

text \<open>The requests and the appends among recorded calls.\<close>

fun inferRequests :: "'t call list \<Rightarrow> 't infer_request list" where
  "inferRequests [] = []"
| "inferRequests (InferCall r # cs) = r # inferRequests cs"
| "inferRequests (AddMessagesCall t ms # cs) = inferRequests cs"

fun appends :: "'t call list \<Rightarrow> (string \<times> message list) list" where
  "appends [] = []"
| "appends (InferCall r # cs) = appends cs"
| "appends (AddMessagesCall t ms # cs) = (t, ms) # appends cs"

lemma inferRequests_append: "inferRequests (xs @ ys) = inferRequests xs @ inferRequests ys"
  by (induction xs rule: inferRequests.induct) simp_all

lemma appends_append: "appends (xs @ ys) = appends xs @ appends ys"
  by (induction xs rule: appends.induct) simp_all

section \<open>Facts about the context window\<close>

lemma slice_negative: "0 < n \<Longrightarrow> slice (- int n) xs = drop (length xs - n) xs"
  by (auto simp: slice_def Let_def max_def nat_diff_distrib' intro: arg_cong2[where f=drop])

lemma slice_last_9: "slice (- 9) xs = drop (length xs - 9) xs"
  using slice_negative[of 9 xs] by simp

lemma slice_last_10: "slice (- 10) xs = drop (length xs - 10) xs"
  using slice_negative[of 10 xs] by simp

lemma inference_request:
  assumes "getThreadDetailsById c (db s) threadId = Inr (Some td)"
    and "resolveAgent c (db s) agentName td = Inr a"
    and "getMessagesByThreadId c (db s) threadId = Inr prev"
    and "getAgentTools c (db s) (agent_id a) = Inr dbtools"
  shows "inferRequests (calls (snd (threadInfer c threadId agentName newMessage s))) =
         inferRequests (calls s) @
           [\<lparr>model = primaryModel a, messages = contextMessages a prev newMessage,
             tools = toolsArgument (toolSet a dbtools)\<rparr>]"
  using assms
  by (simp add: threadInfer_def inferAndSave_def Let_def inferRequests_append
           split: prod.splits sum.splits)

text \<open>The store of the examples, read through its collaborators.\<close>

lemmas demo_defs =
  demo_def store_collaborators_def start_def demo_store_def agentA1_def agentA2_def
  demo_engine_def

lemma demo_thread:
  "getThreadDetailsById demo (db start) ''T1'' = Inr (Some \<lparr>default_agent_id = Some ''A1''\<rparr>)"
  "getThreadDetailsById demo (db start) ''T2'' = Inr (Some \<lparr>default_agent_id = Some ''A2''\<rparr>)"
  "getThreadDetailsById demo (db start) ''T9'' = Inr (Some \<lparr>default_agent_id = Some ''A1''\<rparr>)"
  "getThreadDetailsById demo (db start) ''T11'' = Inr (Some \<lparr>default_agent_id = Some ''A2''\<rparr>)"
  "getThreadDetailsById demo (db start) ''T0'' = Inr (Some \<lparr>default_agent_id = None\<rparr>)"
  "getThreadDetailsById demo (db start) ''T7'' = Inr None"
  by (simp_all add: demo_defs)

lemma demo_agent:
  "resolveAgent demo (db start) None \<lparr>default_agent_id = Some ''A1''\<rparr> = Inr agentA1"
  "resolveAgent demo (db start) None \<lparr>default_agent_id = Some ''A2''\<rparr> = Inr agentA2"
  "resolveAgent demo (db start) (Some ''librarian'') \<lparr>default_agent_id = Some ''A1''\<rparr> = Inr agentA2"
  by (simp_all add: demo_defs resolveAgent_def)

lemma demo_messages:
  "getMessagesByThreadId demo (db start) ''T1'' = Inr []"
  "getMessagesByThreadId demo (db start) ''T2'' = Inr two"
  "getMessagesByThreadId demo (db start) ''T9'' = Inr nine"
  "getMessagesByThreadId demo (db start) ''T11'' = Inr (two @ nine)"
  by (simp_all add: demo_defs)

lemma demo_tools:
  "getAgentTools demo (db start) (agent_id agentA1) = Inr []"
  "getAgentTools demo (db start) (agent_id agentA2) = Inr [''calculator'']"
  by (simp_all add: demo_defs)

section \<open>The claims\<close>

text \<open>
  C1. When a thread has more than 9 prior messages and the turn reaches the inference
  call, the window passed to the engine is built in two stages: the prior messages are
  cut to their last 9, and the list of the system message, those 9 and the new message,
  which has 11 entries, is cut to its last 10. The second cut removes exactly the head
  of that list, the system message. The window has at most 10 messages (exactly 10) and
  ends with the new user message.
\<close>

theorem long_history_window:
  assumes "getThreadDetailsById c (db s) threadId = Inr (Some td)"
    and "resolveAgent c (db s) agentName td = Inr a"
    and "getMessagesByThreadId c (db s) threadId = Inr prev"
    and "getAgentTools c (db s) (agent_id a) = Inr dbtools"
    and "9 < length prev"
  shows "(let trimmed = slice (- 9) prev;
              assembled = [systemMessage a] @ trimmed @ [newMessage];
              window = slice (- 10) assembled
          in inferRequests (calls (snd (threadInfer c threadId agentName newMessage s))) =
               inferRequests (calls s) @
                 [\<lparr>model = primaryModel a, messages = window,
                   tools = toolsArgument (toolSet a dbtools)\<rparr>]
             \<and> trimmed = drop (length prev - 9) prev
             \<and> length trimmed = 9
             \<and> length assembled = 11
             \<and> hd assembled = \<lparr>role = ''system'', content = prompt a\<rparr>
             \<and> window = tl assembled
             \<and> window = trimmed @ [newMessage]
             \<and> length window \<le> 10
             \<and> last window = newMessage)"
proof -
  have req: "inferRequests (calls (snd (threadInfer c threadId agentName newMessage s))) =
      inferRequests (calls s) @
        [\<lparr>model = primaryModel a,
          messages = slice (- 10) ([systemMessage a] @ slice (- 9) prev @ [newMessage]),
          tools = toolsArgument (toolSet a dbtools)\<rparr>]"
    using inference_request[OF assms(1-4)] by (simp add: contextMessages_def)
  have len: "length (slice (- 9) prev) = 9"
    using assms(5) by (simp add: slice_last_9)
  have cut: "slice (- 10) ([systemMessage a] @ slice (- 9) prev @ [newMessage]) =
      slice (- 9) prev @ [newMessage]"
    using len by (simp add: slice_last_10)
  show ?thesis
    unfolding Let_def using req len cut
    by (simp add: slice_last_9 systemMessage_def)
qed

theorem long_history_window_witness:
  "9 < length (two @ nine) \<and>
   inferRequests (calls (snd (threadInfer demo ''T11'' None hi start))) =
     [\<lparr>model = ''m2'', messages = nine @ [hi],
       tools = Some [createToolFromDb ''calculator'', knowledgeBaseTool docs]\<rparr>] \<and>
   slice (- 9) (two @ nine) = nine \<and>
   slice (- 10) ([systemMessage agentA2] @ nine @ [hi]) = nine @ [hi]"
proof -
  have len: "9 < length (two @ nine)"
    by (simp add: two_def nine_def)
  have trimmed: "slice (- 9) (two @ nine) = nine"
    by (simp add: slice_last_9 two_def nine_def)
  have tools: "toolsArgument (toolSet agentA2 [''calculator'']) =
      Some [createToolFromDb ''calculator'', knowledgeBaseTool docs]"
    by (simp add: toolsArgument_def toolSet_def agentA2_def)
  have model: "primaryModel agentA2 = ''m2''"
    by (simp add: agentA2_def)
  have none: "inferRequests (calls start) = []"
    by (simp add: start_def)
  note fact = long_history_window[OF demo_thread(4) demo_agent(2) demo_messages(4)
      demo_tools(2) len, of hi, unfolded Let_def trimmed tools model none]
  from fact have cut: "slice (- 10) ([systemMessage agentA2] @ nine @ [hi]) = nine @ [hi]"
    by blast
  from fact have "inferRequests (calls (snd (threadInfer demo ''T11'' None hi start))) =
      [] @ [\<lparr>model = ''m2'', messages = slice (- 10) ([systemMessage agentA2] @ nine @ [hi]),
             tools = Some [createToolFromDb ''calculator'', knowledgeBaseTool docs]\<rparr>]"
    by blast
  with cut len trimmed show ?thesis
    by simp
qed

text \<open>
  C2. When a thread has a resolvable agent and fewer than 9 prior messages, and the turn
  reaches the inference call, the window passed to the engine is the system message
  built from the agent's prompt, then all prior messages in order, then the new user
  message: nothing is dropped.
\<close>

theorem short_history_window:
  assumes "getThreadDetailsById c (db s) threadId = Inr (Some td)"
    and "resolveAgent c (db s) agentName td = Inr a"
    and "getMessagesByThreadId c (db s) threadId = Inr prev"
    and "getAgentTools c (db s) (agent_id a) = Inr dbtools"
    and "length prev < 9"
  shows "inferRequests (calls (snd (threadInfer c threadId agentName newMessage s))) =
           inferRequests (calls s) @
             [\<lparr>model = primaryModel a,
               messages = [\<lparr>role = ''system'', content = prompt a\<rparr>] @ prev @ [newMessage],
               tools = toolsArgument (toolSet a dbtools)\<rparr>]"
proof -
  have "contextMessages a prev newMessage =
      [\<lparr>role = ''system'', content = prompt a\<rparr>] @ prev @ [newMessage]"
    using assms(5)
    by (simp add: contextMessages_def slice_last_9 slice_last_10 systemMessage_def)
  then show ?thesis
    using inference_request[OF assms(1-4)] by simp
qed

theorem short_history_window_witness:
  "length two < 9 \<and>
   inferRequests (calls (snd (threadInfer demo ''T2'' None hi start))) =
     [\<lparr>model = ''m2'',
       messages = [msg ''system'' ''You cite sources'', msg ''user'' ''p1'',
                   msg ''assistant'' ''r1'', msg ''user'' ''hi''],
       tools = Some [createToolFromDb ''calculator'', knowledgeBaseTool docs]\<rparr>]"
proof -
  have len: "length two < 9"
    by (simp add: two_def)
  have tools: "toolsArgument (toolSet agentA2 [''calculator'']) =
      Some [createToolFromDb ''calculator'', knowledgeBaseTool docs]"
    by (simp add: toolsArgument_def toolSet_def agentA2_def)
  have model: "primaryModel agentA2 = ''m2''" and prompt: "prompt agentA2 = ''You cite sources''"
    by (simp_all add: agentA2_def)
  have none: "inferRequests (calls start) = []"
    by (simp add: start_def)
  note fact = short_history_window[OF demo_thread(2) demo_agent(2) demo_messages(2)
      demo_tools(2) len, of hi, unfolded tools model prompt none]
  show ?thesis
    using fact len by (simp add: two_def msg_def hi_def)
qed

text \<open>
  C10. When a thread has exactly 9 prior messages and the turn reaches the inference
  call, the window passed to the engine is the 9 prior messages followed by the new
  user message. The assembled list has 11 entries with the system message at its head,
  and the cut to the last 10 removes it: the system message is already dropped at 9
  prior messages.
\<close>

theorem nine_prior_messages_window:
  assumes "getThreadDetailsById c (db s) threadId = Inr (Some td)"
    and "resolveAgent c (db s) agentName td = Inr a"
    and "getMessagesByThreadId c (db s) threadId = Inr prev"
    and "getAgentTools c (db s) (agent_id a) = Inr dbtools"
    and "length prev = 9"
  shows "inferRequests (calls (snd (threadInfer c threadId agentName newMessage s))) =
           inferRequests (calls s) @
             [\<lparr>model = primaryModel a, messages = prev @ [newMessage],
               tools = toolsArgument (toolSet a dbtools)\<rparr>]
         \<and> contextMessages a prev newMessage =
             tl ([\<lparr>role = ''system'', content = prompt a\<rparr>] @ prev @ [newMessage])
         \<and> length (contextMessages a prev newMessage) = 10"
proof -
  have "contextMessages a prev newMessage = prev @ [newMessage]"
    using assms(5) by (simp add: contextMessages_def slice_last_9 slice_last_10)
  then show ?thesis
    using inference_request[OF assms(1-4)] assms(5) by simp
qed

theorem nine_prior_messages_window_witness:
  "length nine = 9 \<and>
   inferRequests (calls (snd (threadInfer demo ''T9'' None hi start))) =
     [\<lparr>model = ''m1'', messages = nine @ [hi], tools = None\<rparr>] \<and>
   contextMessages agentA1 nine hi = nine @ [hi]"
proof -
  have len: "length nine = 9"
    by (simp add: nine_def)
  have tools: "toolsArgument (toolSet agentA1 []) = None"
    by (simp add: toolsArgument_def toolSet_def agentA1_def)
  have model: "primaryModel agentA1 = ''m1''"
    by (simp add: agentA1_def)
  have none: "inferRequests (calls start) = []"
    by (simp add: start_def)
  note fact = nine_prior_messages_window[OF demo_thread(3) demo_agent(1) demo_messages(3)
      demo_tools(1) len, of hi, unfolded tools model none]
  show ?thesis
    using fact len by simp
qed

text \<open>
  C3. When a turn succeeds, it has made exactly two calls with an effect, in this order:
  the inference call, and then one append to the thread's log. The appended list is the
  new user message followed by the messages the engine handed to \<^verbatim>\<open>onMessage\<close>, in
  the order it handed them over; the append is applied to the store the inference call
  left behind, and the turn returns the engine's result.
\<close>

theorem successful_turn_persists:
  assumes "threadInfer c threadId agentName newMessage s = (Inr out, s')"
  shows "\<exists>request emitted d1.
           calls s' = calls s @ [InferCall request, AddMessagesCall threadId (newMessage # emitted)]
         \<and> universalInfer c (db s) request = (d1, emitted, Inr out)
         \<and> addMessagesToThread c d1 threadId (newMessage # emitted) = Inr (db s')
         \<and> appends (calls s') = appends (calls s) @ [(threadId, newMessage # emitted)]"
  using assms
  by (auto simp: threadInfer_def inferAndSave_def Let_def appends_append
           split: sum.splits option.splits prod.splits)

theorem successful_turn_persists_witness:
  "fst (threadInfer demo ''T2'' None hi start) = Inr reply \<and>
   calls (snd (threadInfer demo ''T2'' None hi start)) =
     [InferCall \<lparr>model = ''m2'', messages = [systemMessage agentA2] @ two @ [hi],
                 tools = Some [createToolFromDb ''calculator'', knowledgeBaseTool docs]\<rparr>,
      AddMessagesCall ''T2'' [hi, reply]] \<and>
   appends (calls (snd (threadInfer demo ''T2'' None hi start))) = [(''T2'', [hi, reply])] \<and>
   getMessagesByThreadId demo (db (snd (threadInfer demo ''T2'' None hi start))) ''T2'' =
     Inr (two @ [hi, reply])"
proof -
  let ?s' = "snd (threadInfer demo ''T2'' None hi start)"
  have run: "threadInfer demo ''T2'' None hi start =
      (Inr reply,
       \<lparr>db = demo_store\<lparr>thread_messages :=
               [(''T1'', []), (''T2'', two @ [hi, reply]), (''T9'', nine),
                (''T11'', two @ nine), (''T0'', [])]\<rparr>,
        calls = [InferCall \<lparr>model = ''m2'', messages = [systemMessage agentA2] @ two @ [hi],
                            tools = Some [createToolFromDb ''calculator'', knowledgeBaseTool docs]\<rparr>,
                 AddMessagesCall ''T2'' [hi, reply]]\<rparr>)"
    by (simp add: threadInfer_def inferAndSave_def resolveAgent_def contextMessages_def
        toolsArgument_def toolSet_def slice_last_9 slice_last_10 two_def Let_def demo_defs)
  have ok: "threadInfer demo ''T2'' None hi start = (Inr reply, ?s')"
    by (simp add: run)
  have stored: "getMessagesByThreadId demo (db ?s') ''T2'' = Inr (two @ [hi, reply])"
    unfolding run by (simp add: demo_def store_collaborators_def)
  from successful_turn_persists[OF ok] obtain request emitted d1 where
    "appends (calls ?s') = appends (calls start) @ [(''T2'', hi # emitted)]"
    and "universalInfer demo (db start) request = (d1, emitted, Inr reply)"
    by blast
  then have "appends (calls ?s') = [(''T2'', [hi, reply])]"
    by (auto simp: demo_defs)
  with stored show ?thesis
    by (simp add: run)
qed

text \<open>
  C4, as amended. When the \<^verbatim>\<open>agentName\<close> argument is a non-empty string, the agent is
  the one looked up by that name, and the turn fails with
  \<^verbatim>\<open>Agent "<name>" not found\<close> when there is none. The thread's
  \<^verbatim>\<open>default_agent_id\<close> is not consulted: the resolution is the same for every value
  of it, and the turn is a function of the lookup by name alone. When the argument is the
  empty string, the resolution and the whole turn are those of a call without
  \<^verbatim>\<open>agentName\<close>.
\<close>

theorem explicit_agentName_precedence:
  "(n \<noteq> [] \<longrightarrow>
      resolveAgent c d (Some n) td =
        (case getAgentByName c d n of
           Inl e \<Rightarrow> Inl e
         | Inr None \<Rightarrow> Inl (Error (''Agent '' @ [CHR 0x22] @ n @ [CHR 0x22] @ '' not found''))
         | Inr (Some a) \<Rightarrow> Inr a)
    \<and> resolveAgent c d (Some n) (td\<lparr>default_agent_id := other\<rparr>) =
        resolveAgent c d (Some n) td)
   \<and> (n \<noteq> [] \<and> getThreadDetailsById c (db s) threadId = Inr (Some td) \<longrightarrow>
      threadInfer c threadId (Some n) newMessage s =
        (case getAgentByName c (db s) n of
           Inl e \<Rightarrow> (Inl e, s)
         | Inr None \<Rightarrow>
             (Inl (Error (''Agent '' @ [CHR 0x22] @ n @ [CHR 0x22] @ '' not found'')), s)
         | Inr (Some a) \<Rightarrow> inferAndSave c threadId newMessage a s))
   \<and> resolveAgent c d (Some []) td = resolveAgent c d None td
   \<and> threadInfer c threadId (Some []) newMessage s = threadInfer c threadId None newMessage s"
  by (simp add: threadInfer_def resolveAgent_def split: sum.splits option.splits)

theorem explicit_agentName_precedence_witness:
  "''librarian'' \<noteq> [] \<and>
   getThreadDetailsById demo (db start) ''T1'' = Inr (Some \<lparr>default_agent_id = Some ''A1''\<rparr>) \<and>
   getAgentByName demo (db start) ''librarian'' = Inr (Some agentA2) \<and>
   resolveAgent demo (db start) (Some ''librarian'') \<lparr>default_agent_id = Some ''A1''\<rparr> =
     Inr agentA2 \<and>
   threadInfer demo ''T1'' (Some ''librarian'') hi start = inferAndSave demo ''T1'' hi agentA2 start \<and>
   resolveAgent demo (db start) (Some []) \<lparr>default_agent_id = Some ''A1''\<rparr> = Inr agentA1 \<and>
   threadInfer demo ''T1'' (Some []) hi start = threadInfer demo ''T1'' None hi start"
proof -
  have name: "''librarian'' \<noteq> []"
    by simp
  have found: "getAgentByName demo (db start) ''librarian'' = Inr (Some agentA2)"
    by (simp add: demo_defs)
  note fact = explicit_agentName_precedence[where n = "''librarian''" and c = demo
      and d = "db start" and s = start and threadId = "''T1''" and newMessage = hi
      and td = "\<lparr>default_agent_id = Some ''A1''\<rparr>", unfolded found]
  show ?thesis
    using fact name found demo_thread(1) demo_agent(1) by simp
qed

text \<open>
  C4, as stated, fails for the empty string as \<^verbatim>\<open>agentName\<close>: the test
  \<^verbatim>\<open>if (agentName)\<close> takes it for absent. No agent is looked up by name, and the
  thread's default agent governs the turn: \<open>A1\<close> on thread \<open>T1\<close>, \<open>A2\<close> on thread \<open>T2\<close>.
\<close>

theorem empty_agentName_uses_default:
  "getAgentByName demo (db start) '''' = Inr None
   \<and> resolveAgent demo (db start) (Some '''') \<lparr>default_agent_id = Some ''A1''\<rparr> = Inr agentA1
   \<and> resolveAgent demo (db start) (Some '''') \<lparr>default_agent_id = Some ''A2''\<rparr> = Inr agentA2
   \<and> map model (inferRequests (calls (snd (threadInfer demo ''T1'' (Some '''') hi start)))) = [''m1'']
   \<and> map model (inferRequests (calls (snd (threadInfer demo ''T2'' (Some '''') hi start)))) = [''m2'']"
  by (simp add: threadInfer_def inferAndSave_def resolveAgent_def Let_def demo_defs)

text \<open>
  C5. When no thread exists for the \<^verbatim>\<open>threadId\<close>, the turn fails with the error
  \<^verbatim>\<open>Thread not found\<close> (the specification's NotFound), and the state is the one it
  started from: no inference call, no append, the store unchanged.
\<close>

theorem missing_thread_fails:
  assumes "getThreadDetailsById c (db s) threadId = Inr None"
  shows "threadInfer c threadId agentName newMessage s = (Inl (Error ''Thread not found''), s)"
  using assms by (simp add: threadInfer_def)

theorem missing_thread_fails_witness:
  "getThreadDetailsById demo (db start) ''T7'' = Inr None \<and>
   threadInfer demo ''T7'' (Some ''librarian'') hi start = (Inl (Error ''Thread not found''), start) \<and>
   calls start = [] \<and> db start = demo_store"
  using missing_thread_fails[OF demo_thread(6), of "Some ''librarian''" hi] demo_thread(6)
  by (simp add: start_def)

text \<open>
  C6. When the thread exists, no \<^verbatim>\<open>agentName\<close> is supplied and the thread has no
  \<^verbatim>\<open>default_agent_id\<close>, the turn fails with the error
  \<^verbatim>\<open>No agent specified and no default agent set for the thread\<close> (the specification's
  ConfigurationError), and the state is the one it started from: no inference call and no
  append.
\<close>

theorem no_agent_fails:
  assumes "getThreadDetailsById c (db s) threadId = Inr (Some td)"
    and "default_agent_id td = None"
  shows "threadInfer c threadId None newMessage s =
           (Inl (Error ''No agent specified and no default agent set for the thread''), s)"
  using assms by (simp add: threadInfer_def resolveAgent_def)

theorem no_agent_fails_witness:
  "getThreadDetailsById demo (db start) ''T0'' = Inr (Some \<lparr>default_agent_id = None\<rparr>) \<and>
   threadInfer demo ''T0'' None hi start =
     (Inl (Error ''No agent specified and no default agent set for the thread''), start) \<and>
   calls start = []"
proof -
  have none: "default_agent_id \<lparr>default_agent_id = None\<rparr> = None"
    by simp
  show ?thesis
    using no_agent_fails[OF demo_thread(5) none, of hi] demo_thread(5)
    by (simp add: start_def)
qed

text \<open>
  C9. When the turn reaches the inference call, the \<^verbatim>\<open>tools\<close> argument is absent
  (\<^verbatim>\<open>undefined\<close>) if the agent has no declared tools and no knowledge bases, and otherwise
  it is the list of the declared tools followed by the knowledge tools, which is then not
  empty.
\<close>

theorem tools_argument:
  assumes "getThreadDetailsById c (db s) threadId = Inr (Some td)"
    and "resolveAgent c (db s) agentName td = Inr a"
    and "getMessagesByThreadId c (db s) threadId = Inr prev"
    and "getAgentTools c (db s) (agent_id a) = Inr dbtools"
  shows "(let bases = (case knowledgeBases a of None \<Rightarrow> [] | Some kbs \<Rightarrow> kbs);
              both = map createToolFromDb dbtools @ map knowledgeBaseTool bases
          in map tools (inferRequests (calls (snd (threadInfer c threadId agentName newMessage s)))) =
               map tools (inferRequests (calls s)) @
                 [if dbtools = [] \<and> bases = [] then None else Some both]
             \<and> (both = []) = (dbtools = [] \<and> bases = []))"
  using inference_request[OF assms, of newMessage]
  by (simp add: Let_def toolsArgument_def toolSet_def)

theorem tools_argument_witness:
  "map tools (inferRequests (calls (snd (threadInfer demo ''T1'' None hi start)))) = [None] \<and>
   map tools (inferRequests (calls (snd (threadInfer demo ''T2'' None hi start)))) =
     [Some [createToolFromDb ''calculator'', knowledgeBaseTool docs]]"
proof -
  have none: "inferRequests (calls start) = []"
    by (simp add: start_def)
  have bases: "knowledgeBases agentA1 = None" "knowledgeBases agentA2 = Some [docs]"
    by (simp_all add: agentA1_def agentA2_def)
  note without = tools_argument[OF demo_thread(1) demo_agent(1) demo_messages(1) demo_tools(1),
      of hi, unfolded Let_def none bases]
  note with_tools = tools_argument[OF demo_thread(2) demo_agent(2) demo_messages(2) demo_tools(2),
      of hi, unfolded Let_def none bases]
  show ?thesis
    using without with_tools by simp
qed

text \<open>
  C7. The value the schema checks is the payload itself when that is not a string, and
  what \<^verbatim>\<open>JSON.parse\<close> reads from it when it is. A text that \<^verbatim>\<open>JSON.parse\<close> rejects
  fails with its \<^verbatim>\<open>SyntaxError\<close>. A value that is not an object, an object whose
  \<^verbatim>\<open>query\<close> is not a string, and an object whose \<^verbatim>\<open>k\<close> is there and is not a
  number each fail with a \<^verbatim>\<open>ZodError\<close>. An object with a string \<^verbatim>\<open>query\<close> and no
  \<^verbatim>\<open>k\<close> is parsed to that query with \<open>k = 2\<close>, and invoking the tool makes one search,
  with \<open>k = 2\<close>; with a number as \<^verbatim>\<open>k\<close> the search is made with that number. Whenever the
  parse step fails, the error is a \<^verbatim>\<open>SyntaxError\<close> or a \<^verbatim>\<open>ZodError\<close> (the
  specification's ValidationError), the invocation fails with it, and no search has been
  made.
\<close>

theorem knowledge_tool_parse:
  "(JSON_parse e raw = None \<longrightarrow>
      tool_parse e (JStr raw) = Inl SyntaxError
    \<and> tool_invoke e kb (JStr raw) searches = (Inl SyntaxError, searches))
   \<and> ((payload = v \<and> (\<forall>str. v \<noteq> JStr str)) \<or> (payload = JStr raw \<and> JSON_parse e raw = Some v) \<longrightarrow>
        ((\<forall>fields. v \<noteq> JObj fields) \<longrightarrow>
           tool_invoke e kb payload searches = (Inl ZodError, searches))
      \<and> (v = JObj obj \<and> (\<forall>str. property obj ''query'' \<noteq> JStr str) \<longrightarrow>
           tool_invoke e kb payload searches = (Inl ZodError, searches))
      \<and> (v = JObj obj \<and> property obj ''k'' \<noteq> JUndefined \<and> (\<forall>num. property obj ''k'' \<noteq> JNum num) \<longrightarrow>
           tool_invoke e kb payload searches = (Inl ZodError, searches))
      \<and> (v = JObj obj \<and> property obj ''query'' = JStr q \<and> property obj ''k'' = JUndefined \<longrightarrow>
           tool_parse e payload = Inr \<lparr>query = q, k = 2\<rparr>
         \<and> tool_invoke e kb payload searches = tool_function e kb \<lparr>query = q, k = 2\<rparr> searches
         \<and> snd (tool_invoke e kb payload searches) = searches @ [(name kb, q, 2)])
      \<and> (v = JObj obj \<and> property obj ''query'' = JStr q \<and> property obj ''k'' = JNum n \<longrightarrow>
           tool_parse e payload = Inr \<lparr>query = q, k = n\<rparr>
         \<and> tool_invoke e kb payload searches = tool_function e kb \<lparr>query = q, k = n\<rparr> searches
         \<and> snd (tool_invoke e kb payload searches) = searches @ [(name kb, q, n)]))
   \<and> (map_of obj ''k'' = None \<longrightarrow> property obj ''k'' = JUndefined)
   \<and> (map_of obj ''query'' = Some (JStr q) \<longrightarrow> property obj ''query'' = JStr q)
   \<and> (tool_parse e payload = Inl err \<longrightarrow>
        (err = SyntaxError \<or> err = ZodError)
      \<and> tool_invoke e kb payload searches = (Inl err, searches))"
proof -
  have searched: "snd (tool_function e kb p searches) = searches @ [(name kb, query p, k p)]" for p
    by (simp add: tool_function_def Let_def split: sum.splits)
  have checked: "tool_parse e payload = paramsSchema v"
    if "(payload = v \<and> (\<forall>str. v \<noteq> JStr str)) \<or> (payload = JStr raw \<and> JSON_parse e raw = Some v)"
    using that by (auto simp: tool_parse_def split: js_value.splits)
  have no_object: "paramsSchema v = Inl ZodError" if "\<forall>fields. v \<noteq> JObj fields"
    using that by (cases v) simp_all
  have no_query: "paramsSchema (JObj obj) = Inl ZodError"
    if "\<forall>str. property obj ''query'' \<noteq> JStr str"
    using that by (cases "property obj ''query''") simp_all
  have no_number: "paramsSchema (JObj obj) = Inl ZodError"
    if "property obj ''k'' \<noteq> JUndefined" and "\<forall>num. property obj ''k'' \<noteq> JNum num"
    using that
    by (cases "property obj ''k''"; cases "z_string (property obj ''query'')") simp_all
  have default: "paramsSchema (JObj obj) = Inr \<lparr>query = q, k = 2\<rparr>"
    if "property obj ''query'' = JStr q" and "property obj ''k'' = JUndefined"
    using that by simp
  have given: "paramsSchema (JObj obj) = Inr \<lparr>query = q, k = n\<rparr>"
    if "property obj ''query'' = JStr q" and "property obj ''k'' = JNum n"
    using that by simp
  have schema_error: "err' = ZodError" if "paramsSchema w = Inl err'" for w err'
    using that by (cases w) (auto split: option.splits)
  have parse_error: "err = SyntaxError \<or> err = ZodError" if "tool_parse e payload = Inl err"
    using that schema_error
    by (auto simp: tool_parse_def split: option.splits js_value.splits)
  have first: "JSON_parse e raw = None \<longrightarrow>
      tool_parse e (JStr raw) = Inl SyntaxError
    \<and> tool_invoke e kb (JStr raw) searches = (Inl SyntaxError, searches)"
    by (simp add: tool_invoke_def tool_parse_def)
  have second: "tool_invoke e kb payload searches = (Inl ZodError, searches)"
    if "tool_parse e payload = Inl ZodError"
    using that by (simp add: tool_invoke_def)
  have third: "tool_invoke e kb payload searches = tool_function e kb p searches
      \<and> snd (tool_invoke e kb payload searches) = searches @ [(name kb, query p, k p)]"
    if "tool_parse e payload = Inr p" for p
    using that searched[of p] by (simp add: tool_invoke_def)
  have last: "tool_parse e payload = Inl err \<longrightarrow>
        (err = SyntaxError \<or> err = ZodError)
      \<and> tool_invoke e kb payload searches = (Inl err, searches)"
    using parse_error by (simp add: tool_invoke_def)
  have reads: "(map_of obj ''k'' = None \<longrightarrow> property obj ''k'' = JUndefined)
      \<and> (map_of obj ''query'' = Some (JStr q) \<longrightarrow> property obj ''query'' = JStr q)"
    by (simp add: property_def)
  have middle: "((\<forall>fields. v \<noteq> JObj fields) \<longrightarrow>
           tool_invoke e kb payload searches = (Inl ZodError, searches))
      \<and> (v = JObj obj \<and> (\<forall>str. property obj ''query'' \<noteq> JStr str) \<longrightarrow>
           tool_invoke e kb payload searches = (Inl ZodError, searches))
      \<and> (v = JObj obj \<and> property obj ''k'' \<noteq> JUndefined \<and> (\<forall>num. property obj ''k'' \<noteq> JNum num) \<longrightarrow>
           tool_invoke e kb payload searches = (Inl ZodError, searches))
      \<and> (v = JObj obj \<and> property obj ''query'' = JStr q \<and> property obj ''k'' = JUndefined \<longrightarrow>
           tool_parse e payload = Inr \<lparr>query = q, k = 2\<rparr>
         \<and> tool_invoke e kb payload searches = tool_function e kb \<lparr>query = q, k = 2\<rparr> searches
         \<and> snd (tool_invoke e kb payload searches) = searches @ [(name kb, q, 2)])
      \<and> (v = JObj obj \<and> property obj ''query'' = JStr q \<and> property obj ''k'' = JNum n \<longrightarrow>
           tool_parse e payload = Inr \<lparr>query = q, k = n\<rparr>
         \<and> tool_invoke e kb payload searches = tool_function e kb \<lparr>query = q, k = n\<rparr> searches
         \<and> snd (tool_invoke e kb payload searches) = searches @ [(name kb, q, n)])"
    if holds: "(payload = v \<and> (\<forall>str. v \<noteq> JStr str)) \<or> (payload = JStr raw \<and> JSON_parse e raw = Some v)"
  proof -
    note eq = checked[OF holds]
    show ?thesis
      using second third[of "\<lparr>query = q, k = 2\<rparr>"] third[of "\<lparr>query = q, k = n\<rparr>"]
        no_object no_query no_number default given
      unfolding eq by auto
  qed
  show ?thesis
    using first middle reads last by blast
qed

theorem knowledge_tool_parse_witness:
  "tool_parse demo_kb (JObj [(''query'', JStr ''cats'')]) = Inr \<lparr>query = ''cats'', k = 2\<rparr>
   \<and> snd (tool_invoke demo_kb docs (JObj [(''query'', JStr ''cats'')]) []) = [(''docs'', ''cats'', 2)]
   \<and> snd (tool_invoke demo_kb docs (JStr cats_text) []) = [(''docs'', ''cats'', 2)]
   \<and> snd (tool_invoke demo_kb docs (JObj [(''query'', JStr ''cats''), (''k'', JNum 5)]) []) =
       [(''docs'', ''cats'', 5)]
   \<and> tool_invoke demo_kb docs (JStr ''{oops'') [] = (Inl SyntaxError, [])
   \<and> tool_invoke demo_kb docs JNull [] = (Inl ZodError, [])
   \<and> tool_invoke demo_kb docs (JStr ''null'') [] = (Inl ZodError, [])
   \<and> tool_invoke demo_kb docs (JObj [(''query'', JNum 7)]) [] = (Inl ZodError, [])
   \<and> tool_invoke demo_kb docs (JObj [(''query'', JStr ''cats''), (''k'', JStr ''3'')]) [] =
       (Inl ZodError, [])"
proof -
  have readable: "JSON_parse demo_kb cats_text = Some (JObj [(''query'', JStr ''cats'')])"
    by (simp add: demo_kb_def)
  have null: "JSON_parse demo_kb ''null'' = Some JNull"
    by (simp add: demo_kb_def cats_text_def)
  have rejected: "JSON_parse demo_kb ''{oops'' = None"
    by (simp add: demo_kb_def cats_text_def)
  have props: "property [(''query'', JStr ''cats'')] ''query'' = JStr ''cats''"
    "property [(''query'', JStr ''cats'')] ''k'' = JUndefined"
    "property [(''query'', JStr ''cats''), (''k'', JNum 5)] ''query'' = JStr ''cats''"
    "property [(''query'', JStr ''cats''), (''k'', JNum 5)] ''k'' = JNum 5"
    "property [(''query'', JNum 7)] ''query'' = JNum 7"
    "property [(''query'', JStr ''cats''), (''k'', JStr ''3'')] ''k'' = JStr ''3''"
    by (simp_all add: property_def)
  note as_object = knowledge_tool_parse[where e = demo_kb and kb = docs and searches = "[]"
      and payload = "JObj [(''query'', JStr ''cats'')]" and v = "JObj [(''query'', JStr ''cats'')]"
      and obj = "[(''query'', JStr ''cats'')]" and q = "''cats''" and raw = "''{oops''"]
  note as_text = knowledge_tool_parse[where e = demo_kb and kb = docs and searches = "[]"
      and payload = "JStr cats_text" and v = "JObj [(''query'', JStr ''cats'')]"
      and obj = "[(''query'', JStr ''cats'')]" and q = "''cats''" and raw = cats_text]
  note with_k = knowledge_tool_parse[where e = demo_kb and kb = docs and searches = "[]"
      and payload = "JObj [(''query'', JStr ''cats''), (''k'', JNum 5)]"
      and v = "JObj [(''query'', JStr ''cats''), (''k'', JNum 5)]"
      and obj = "[(''query'', JStr ''cats''), (''k'', JNum 5)]" and q = "''cats''" and n = 5]
  note null_value = knowledge_tool_parse[where e = demo_kb and kb = docs and searches = "[]"
      and payload = JNull and v = JNull]
  note null_text = knowledge_tool_parse[where e = demo_kb and kb = docs and searches = "[]"
      and payload = "JStr ''null''" and v = JNull and raw = "''null''"]
  note number_query = knowledge_tool_parse[where e = demo_kb and kb = docs and searches = "[]"
      and payload = "JObj [(''query'', JNum 7)]" and v = "JObj [(''query'', JNum 7)]"
      and obj = "[(''query'', JNum 7)]"]
  note string_k = knowledge_tool_parse[where e = demo_kb and kb = docs and searches = "[]"
      and payload = "JObj [(''query'', JStr ''cats''), (''k'', JStr ''3'')]"
      and v = "JObj [(''query'', JStr ''cats''), (''k'', JStr ''3'')]"
      and obj = "[(''query'', JStr ''cats''), (''k'', JStr ''3'')]"]
  from as_object props
  have parsed: "tool_parse demo_kb (JObj [(''query'', JStr ''cats'')]) =
      Inr \<lparr>query = ''cats'', k = 2\<rparr>"
    and searched: "snd (tool_invoke demo_kb docs (JObj [(''query'', JStr ''cats'')]) []) =
      [] @ [(name docs, ''cats'', 2)]"
    by blast+
  from as_text props readable
  have from_text: "snd (tool_invoke demo_kb docs (JStr cats_text) []) =
      [] @ [(name docs, ''cats'', 2)]"
    by blast
  from with_k props
  have five: "snd (tool_invoke demo_kb docs (JObj [(''query'', JStr ''cats''), (''k'', JNum 5)]) []) =
      [] @ [(name docs, ''cats'', 5)]"
    by blast
  from as_object rejected
  have unreadable: "tool_invoke demo_kb docs (JStr ''{oops'') [] = (Inl SyntaxError, [])"
    by blast
  from null_value
  have no_object: "tool_invoke demo_kb docs JNull [] = (Inl ZodError, [])"
    by blast
  from null_text null
  have no_object_text: "tool_invoke demo_kb docs (JStr ''null'') [] = (Inl ZodError, [])"
    by blast
  from number_query props
  have no_string: "tool_invoke demo_kb docs (JObj [(''query'', JNum 7)]) [] = (Inl ZodError, [])"
    by auto
  from string_k props
  have no_number: "tool_invoke demo_kb docs
      (JObj [(''query'', JStr ''cats''), (''k'', JStr ''3'')]) [] = (Inl ZodError, [])"
    by auto
  show ?thesis
    using parsed searched from_text five unreadable no_object no_object_text no_string no_number
    by (simp add: docs_def)
qed

text \<open>
  C8. When the search collaborator returns a sequence of results, the tool's output is
  the serialization of the list that has, for each result in order, an object with
  exactly the two properties \<^verbatim>\<open>content\<close> and \<^verbatim>\<open>metadata\<close> of that result. The fields
  \<^verbatim>\<open>id\<close>, \<^verbatim>\<open>model\<close> and \<^verbatim>\<open>similarity\<close> are no properties of these objects, and the
  output is the same whatever their values are.
\<close>

theorem knowledge_tool_output:
  assumes "searchKnowledgeBase e (name kb) (query p) (k p) = Inr results"
  shows "fst (tool_function e kb p searches) = Inr (JSON_stringify e (JArr (filtered results)))
       \<and> length (filtered results) = length results
       \<and> (\<forall>i<length results.
            filtered results ! i =
              JObj [(''content'', JStr (sr_content (results ! i))),
                    (''metadata'', case sr_metadata (results ! i) of
                                     None \<Rightarrow> JUndefined | Some m \<Rightarrow> JObj m)])
       \<and> map keys (filtered results) = replicate (length results) [''content'', ''metadata'']
       \<and> filtered (map (\<lambda>r. r\<lparr>sr_id := new_id r, sr_model := new_model r,
                                similarity := new_similarity r\<rparr>) results) =
           filtered results"
proof -
  have "map keys (filtered rs) = replicate (length rs) [''content'', ''metadata'']" for rs
    by (induction rs) (simp_all add: filtered_def)
  then show ?thesis
    using assms by (simp add: tool_function_def Let_def filtered_def)
qed

theorem knowledge_tool_output_witness:
  "searchKnowledgeBase demo_kb (name docs) ''cats'' 2 = Inr [hit1, hit2]
   \<and> fst (tool_function demo_kb docs \<lparr>query = ''cats'', k = 2\<rparr> []) =
       Inr (JSON_stringify demo_kb (JArr
         [JObj [(''content'', JStr ''cats purr''), (''metadata'', JObj [(''page'', JNum 3)])],
          JObj [(''content'', JStr ''cats nap''), (''metadata'', JUndefined)]]))
   \<and> map keys (filtered [hit1, hit2]) = [[''content'', ''metadata''], [''content'', ''metadata'']]"
proof -
  have found: "searchKnowledgeBase demo_kb (name docs) (query \<lparr>query = ''cats'', k = 2\<rparr>)
      (k \<lparr>query = ''cats'', k = 2\<rparr>) = Inr [hit1, hit2]"
    by (simp add: demo_kb_def)
  have projected: "filtered [hit1, hit2] =
      [JObj [(''content'', JStr ''cats purr''), (''metadata'', JObj [(''page'', JNum 3)])],
       JObj [(''content'', JStr ''cats nap''), (''metadata'', JUndefined)]]"
    by (simp add: filtered_def hit1_def hit2_def)
  note fact = knowledge_tool_output[OF found, of "[]"]
  show ?thesis
    using fact found projected by (simp add: eval_nat_numeral)
qed

end
